theory Spec2Isabelle
  imports Main
begin

section \<open>Voice translator (app.py): values, exceptions, effects\<close>

text \<open>
  The program is a script that drives external libraries (speech recognition, translation,
  speech synthesis, audio conversion, the microphone) and reports through Streamlit.
  Every library call is an entry of a record of responses (\<open>world\<close>); a response may depend on
  everything that happened before (the trace), so the same call can succeed once and fail
  later. Every call and every Streamlit message is appended to the trace, so that
  "the backend is not invoked" is a statement about the trace.
\<close>

type_synonym path = string
type_synonym audio = string

text \<open>
  Python exceptions: \<open>sr.UnknownValueError\<close> is the one class the code names
  (line 111); every other subclass of \<open>Exception\<close> carries its message, which the
  code prints with an f-string.
\<close>

datatype exn = UnknownValueError | Exception string

fun str_exn :: "exn \<Rightarrow> string" where
  "str_exn UnknownValueError = []"
| "str_exn (Exception m) = m"

text \<open>Values stored in the result dictionary of \<open>process_single_file\<close>.\<close>

datatype pyval = PyNone | PyStr string

fun py_opt :: "string option \<Rightarrow> pyval" where
  "py_opt None = PyNone"
| "py_opt (Some t) = PyStr t"

text \<open>Truthiness of a value that is \<open>None\<close> or a string (\<open>if tts_file:\<close>).\<close>

fun truthy :: "string option \<Rightarrow> bool" where
  "truthy None = False"
| "truthy (Some t) = (t \<noteq> [])"

text \<open>The f-string rendering of a value that is \<open>None\<close> or a string.\<close>

fun str_opt :: "string option \<Rightarrow> string" where
  "str_opt None = ''None''"
| "str_opt (Some t) = t"

datatype event =
    StWarning string
  | StError string
  | StWrite string
  | StSuccess string
  | AudioFileRecord path
  | RecognizeGoogle audio
  | WhisperLoadModel string
  | WhisperTranscribe path
  | GoogleTranslate string string
  | LangDetect string
  | GttsSave string string path
  | Pyttsx3Save string path
  | SegmentExport path path
  | MicrophoneNew
  | MicEnter
  | AdjustForAmbientNoise
  | MicRecord nat
  | SaveChunk audio
  | MicExit
  | PlayThread path
  | LiveThread string nat nat string
  | Sleep nat

text \<open>
  The program state: the trace of effects so far and the shared run flag
  \<open>_live_flag['run']\<close> (line 357).
\<close>

record pstate =
  trace :: "event list"
  live_flag :: bool

text \<open>
  Module-level settings read by the functions: the two optional imports (lines 36-47) and
  the sidebar choices (lines 74 and 84).
\<close>

record globals =
  has_pyttsx3 :: bool
  has_whisper :: bool
  stt_backend :: string
  use_lang_detect :: bool

text \<open>
  The external libraries. Each entry takes the trace at the time of the call and the
  arguments, and returns the call's outcome: \<open>Inl e\<close> when the call raises \<open>e\<close>.
  \<^item> \<open>audio_file_record\<close>: \<open>with sr.AudioFile(p) as source: r.record(source)\<close> (lines 106-107);
  \<^item> \<open>recognize_google\<close>: \<open>r.recognize_google(audio)\<close> (line 109);
  \<^item> \<open>whisper_load_model\<close>, \<open>whisper_transcribe\<close>: lines 123-124; the transcription result is
    a dictionary;
  \<^item> \<open>google_translate\<close>: \<open>GoogleTranslator(source='auto', target=t).translate(text)\<close> (line 135);
  \<^item> \<open>detect\<close>: \<open>langdetect.detect\<close> (line 144);
  \<^item> \<open>gtts_save\<close>: \<open>gTTS(text=text, lang=lang).save(out_path)\<close> (lines 153-154);
  \<^item> \<open>pyttsx3_save\<close>: \<open>pyttsx3.init()\<close>, \<open>save_to_file\<close>, \<open>runAndWait\<close> (lines 166-169);
  \<^item> \<open>segment_export\<close>: \<open>AudioSegment.from_file(wav).export(out, format='mp3')\<close>
    (lines 277-278, 407-408);
  \<^item> \<open>clock\<close>: \<open>int(time.time())\<close>; \<open>tempdir\<close>: \<open>tempfile.gettempdir()\<close>;
  \<^item> \<open>microphone\<close>: \<open>sr.Microphone()\<close> (line 363); \<open>mic_enter\<close>: entering \<open>with mic as source\<close>
    (line 369); \<open>adjust_for_ambient_noise\<close> (line 370); \<open>mic_record\<close>: \<open>r.record(source,
    duration=chunk_sec)\<close> (line 373); \<open>save_chunk\<close>: writing the chunk to a fresh temporary
    wav file (lines 374-376), returning its name;
  \<^item> \<open>ui_stop\<close>: whether the user-interface thread has cleared the run flag (line 432) since
    the live loop last looked at it.
\<close>

record world =
  audio_file_record :: "event list \<Rightarrow> path \<Rightarrow> exn + audio"
  recognize_google :: "event list \<Rightarrow> audio \<Rightarrow> exn + string"
  whisper_load_model :: "event list \<Rightarrow> string \<Rightarrow> exn + unit"
  whisper_transcribe :: "event list \<Rightarrow> path \<Rightarrow> exn + (string \<rightharpoonup> string)"
  google_translate :: "event list \<Rightarrow> string \<Rightarrow> string \<Rightarrow> exn + string"
  detect :: "event list \<Rightarrow> string \<Rightarrow> exn + string"
  gtts_save :: "event list \<Rightarrow> string \<Rightarrow> string \<Rightarrow> path \<Rightarrow> exn + unit"
  pyttsx3_save :: "event list \<Rightarrow> string \<Rightarrow> path \<Rightarrow> exn + unit"
  segment_export :: "event list \<Rightarrow> path \<Rightarrow> path \<Rightarrow> exn + unit"
  clock :: "event list \<Rightarrow> nat"
  tempdir :: string
  microphone :: "event list \<Rightarrow> exn + unit"
  mic_enter :: "event list \<Rightarrow> exn + unit"
  adjust_for_ambient_noise :: "event list \<Rightarrow> exn + unit"
  mic_record :: "event list \<Rightarrow> nat \<Rightarrow> exn + audio"
  save_chunk :: "event list \<Rightarrow> audio \<Rightarrow> exn + path"
  ui_stop :: "event list \<Rightarrow> bool"

subsection \<open>Control flow: return, raise, sequencing, try/except\<close>

type_synonym 'a prog = "pstate \<Rightarrow> (exn + 'a) \<times> pstate"

definition ret :: "'a \<Rightarrow> 'a prog" where
  "ret x s = (Inr x, s)"

definition raise :: "exn \<Rightarrow> 'a prog" where
  "raise e s = (Inl e, s)"

text \<open>Sequencing: an exception of the first part skips the rest.\<close>

definition bnd :: "'a prog \<Rightarrow> ('a \<Rightarrow> 'b prog) \<Rightarrow> 'b prog" where
  "bnd m f s = (case m s of (Inl e, s') \<Rightarrow> (Inl e, s') | (Inr x, s') \<Rightarrow> f x s')"

text \<open>\<open>try: m  except Exception as e: h e\<close>.\<close>

definition try_except :: "'a prog \<Rightarrow> (exn \<Rightarrow> 'a prog) \<Rightarrow> 'a prog" where
  "try_except m h s = (case m s of (Inl e, s') \<Rightarrow> h e s' | (Inr x, s') \<Rightarrow> (Inr x, s'))"

text \<open>An effect that cannot fail (a Streamlit message, a sleep, starting a thread).\<close>

definition emit :: "event \<Rightarrow> unit prog" where
  "emit ev s = (Inr (), s\<lparr>trace := trace s @ [ev]\<rparr>)"

text \<open>A library call: it is recorded in the trace, and its outcome is the world's.\<close>

definition extern :: "event \<Rightarrow> (event list \<Rightarrow> exn + 'a) \<Rightarrow> 'a prog" where
  "extern ev f s = (f (trace s), s\<lparr>trace := trace s @ [ev]\<rparr>)"

subsection \<open>String helpers of Python used by the script\<close>

definition startswith :: "string \<Rightarrow> string \<Rightarrow> bool" where
  "startswith s p = (take (length p) s = p)"

text \<open>\<open>str(n)\<close> for a non-negative integer; the index into the digits is below 10.\<close>

fun str_nat :: "nat \<Rightarrow> string" where
  "str_nat n =
     (if n < 10 then [''0123456789'' ! n]
      else str_nat (n div 10) @ [''0123456789'' ! (n mod 10)])"

declare str_nat.simps [simp del]

text \<open>\<open>s.replace(old, new)\<close>: every non-overlapping occurrence, left to right
  (the script only calls it with a non-empty \<open>old\<close>).\<close>

fun replace :: "string \<Rightarrow> string \<Rightarrow> string \<Rightarrow> string" where
  "replace [] old new = []"
| "replace (c # cs) old new =
     (if old \<noteq> [] \<and> take (length old) (c # cs) = old
      then new @ replace (drop (length old - 1) cs) old new
      else c # replace cs old new)"

text \<open>\<open>os.path.join(a, b)\<close> for a relative \<open>b\<close> (POSIX).\<close>

definition path_join :: "string \<Rightarrow> string \<Rightarrow> string" where
  "path_join a b = (if a = [] \<or> last a = CHR ''/'' then a @ b else a @ ''/'' @ b)"

section \<open>The pipeline steps (lines 104-173)\<close>

definition recognize_with_google :: "world \<Rightarrow> path \<Rightarrow> string prog" where
  "recognize_with_google w audio_path =
     bnd (extern (AudioFileRecord audio_path) (\<lambda>h. audio_file_record w h audio_path))
       (\<lambda>audio.
          try_except
            (extern (RecognizeGoogle audio) (\<lambda>h. recognize_google w h audio))
            (\<lambda>e. if e = UnknownValueError then ret []
                  else bnd (emit (StWarning (''Google STT error: '' @ str_exn e)))
                         (\<lambda>_. ret [])))"

definition recognize_with_whisper :: "globals \<Rightarrow> world \<Rightarrow> path \<Rightarrow> string \<Rightarrow> string prog" where
  "recognize_with_whisper g w audio_path model_name =
     (if \<not> has_whisper g
      then bnd (emit (StWarning
                  ''Whisper not installed. Install 'whisper' package to use local Whisper.''))
             (\<lambda>_. ret [])
      else try_except
             (bnd (extern (WhisperLoadModel model_name) (\<lambda>h. whisper_load_model w h model_name))
                (\<lambda>_. bnd (extern (WhisperTranscribe audio_path)
                             (\<lambda>h. whisper_transcribe w h audio_path))
                        (\<lambda>result. ret (case result ''text'' of None \<Rightarrow> [] | Some t \<Rightarrow> t))))
             (\<lambda>e. bnd (emit (StWarning (''Whisper error: '' @ str_exn e))) (\<lambda>_. ret [])))"

definition translate_text :: "world \<Rightarrow> string \<Rightarrow> string \<Rightarrow> string prog" where
  "translate_text w text target_lang =
     (if text = [] then ret []
      else try_except
             (extern (GoogleTranslate text target_lang)
                (\<lambda>h. google_translate w h text target_lang))
             (\<lambda>e. bnd (emit (StWarning (''Translation error: '' @ str_exn e))) (\<lambda>_. ret [])))"

definition detect_language :: "world \<Rightarrow> string \<Rightarrow> string option prog" where
  "detect_language w text =
     try_except
       (bnd (extern (LangDetect text) (\<lambda>h. detect w h text)) (\<lambda>l. ret (Some l)))
       (\<lambda>e. ret None)"

definition tts_gtts_and_save :: "world \<Rightarrow> string \<Rightarrow> string \<Rightarrow> path \<Rightarrow> path option prog" where
  "tts_gtts_and_save w text lang out_path =
     (if text = [] then ret None
      else try_except
             (bnd (extern (GttsSave text lang out_path) (\<lambda>h. gtts_save w h text lang out_path))
                (\<lambda>_. ret (Some out_path)))
             (\<lambda>e. bnd (emit (StWarning (''gTTS error: '' @ str_exn e))) (\<lambda>_. ret None)))"

definition tts_pyttsx3_and_save :: "globals \<Rightarrow> world \<Rightarrow> string \<Rightarrow> path \<Rightarrow> path option prog" where
  "tts_pyttsx3_and_save g w text out_path =
     (if \<not> has_pyttsx3 g
      then bnd (emit (StWarning
                  ''pyttsx3 not installed. Install with `pip install pyttsx3` to use offline TTS.''))
             (\<lambda>_. ret None)
      else try_except
             (bnd (extern (Pyttsx3Save text out_path) (\<lambda>h. pyttsx3_save w h text out_path))
                (\<lambda>_. ret (Some out_path)))
             (\<lambda>e. bnd (emit (StWarning (''pyttsx3 error: '' @ str_exn e))) (\<lambda>_. ret None)))"

section \<open>Batch processing (lines 249-289 and 327-331)\<close>

text \<open>The choice of the transcription backend (lines 251-254 and 378-381).\<close>

definition stt_dispatch :: "globals \<Rightarrow> world \<Rightarrow> path \<Rightarrow> string prog" where
  "stt_dispatch g w audio_file =
     (if startswith (stt_backend g) ''Google'' then recognize_with_google w audio_file
      else recognize_with_whisper g w audio_file ''small'')"

text \<open>
  The offline branch of synthesis (lines 272-281 and 404-411): synthesis to a wav file, then
  conversion to mp3; a failed conversion is swallowed and the wav file is kept. The batch
  code reads the wav file at \<open>wav_path\<close>, the live code at the name that was returned:
  the same name when there is one.
\<close>

definition pyttsx3_then_mp3 :: "globals \<Rightarrow> world \<Rightarrow> string \<Rightarrow> path \<Rightarrow> path option prog" where
  "pyttsx3_then_mp3 g w translated out_path =
     (let wav_path = replace out_path ''.mp3'' ''.wav'' in
      bnd (tts_pyttsx3_and_save g w translated wav_path)
        (\<lambda>tts_file.
           if truthy tts_file
           then try_except
                  (bnd (extern (SegmentExport wav_path out_path)
                          (\<lambda>h. segment_export w h wav_path out_path))
                     (\<lambda>_. ret (Some out_path)))
                  (\<lambda>e. ret tts_file)
           else ret tts_file))"

definition process_single_file ::
  "globals \<Rightarrow> world \<Rightarrow> path \<Rightarrow> string \<Rightarrow> string \<Rightarrow> (string \<rightharpoonup> pyval) prog" where
  "process_single_file g w audio_file target_lang tts_engine_choice =
     bnd (stt_dispatch g w audio_file)
       (\<lambda>src_text.
          if src_text = []
          then ret [''error'' \<mapsto> PyStr ''STT failed or empty'',
                    ''source_text'' \<mapsto> PyStr [],
                    ''translated'' \<mapsto> PyStr []]
          else
            bnd (if use_lang_detect g then detect_language w src_text else ret None)
              (\<lambda>detected.
            bnd (translate_text w src_text target_lang)
              (\<lambda>translated.
            (\<lambda>s.
               (let filename = ''translated_'' @ str_nat (clock w (trace s)) @ ''.mp3'';
                    out_path = path_join (tempdir w) filename
                in bnd (if tts_engine_choice = ''gTTS (online)''
                        then tts_gtts_and_save w translated target_lang out_path
                        else pyttsx3_then_mp3 g w translated out_path)
                     (\<lambda>tts_file.
                        ret [''error'' \<mapsto> PyNone,
                             ''source_text'' \<mapsto> PyStr src_text,
                             ''detected_lang'' \<mapsto> py_opt detected,
                             ''translated'' \<mapsto> PyStr translated,
                             ''tts_file'' \<mapsto> py_opt tts_file])) s))))"

text \<open>
  The loop of the batch runner (lines 329-331): \<open>results\<close> is the list built so far. There is
  no \<open>try\<close> around the call, so an exception of \<open>process_single_file\<close> leaves the loop and
  the script run.
\<close>

fun batch_loop ::
  "globals \<Rightarrow> world \<Rightarrow> string \<Rightarrow> string \<Rightarrow> path list \<Rightarrow> (path \<times> (string \<rightharpoonup> pyval)) list
     \<Rightarrow> (path \<times> (string \<rightharpoonup> pyval)) list prog" where
  "batch_loop g w translate_target tts_choice [] results = ret results"
| "batch_loop g w translate_target tts_choice (audio_path # inputs) results =
     bnd (process_single_file g w audio_path translate_target tts_choice)
       (\<lambda>res. batch_loop g w translate_target tts_choice inputs (results @ [(audio_path, res)]))"

section \<open>Live translation (lines 356-433)\<close>

text \<open>The body of one cycle (lines 373-417).\<close>

definition live_cycle :: "globals \<Rightarrow> world \<Rightarrow> string \<Rightarrow> nat \<Rightarrow> nat \<Rightarrow> string \<Rightarrow> unit prog" where
  "live_cycle g w target_lang chunk_sec pause_sec tts_engine_choice =
     bnd (extern (MicRecord chunk_sec) (\<lambda>h. mic_record w h chunk_sec))
       (\<lambda>audio.
     bnd (extern (SaveChunk audio) (\<lambda>h. save_chunk w h audio))
       (\<lambda>tf_name.
     bnd (stt_dispatch g w tf_name)
       (\<lambda>src_text.
          if src_text = [] then emit (Sleep pause_sec)
          else
            bnd (if use_lang_detect g then detect_language w src_text else ret None)
              (\<lambda>detected.
            bnd (translate_text w src_text target_lang)
              (\<lambda>translated.
            bnd (emit (StWrite (''**Live Detected ('' @ str_opt detected @ ''):** '' @ src_text)))
              (\<lambda>_.
            bnd (emit (StWrite (''**Live Translated ('' @ target_lang @ ''):** '' @ translated)))
              (\<lambda>_.
            (\<lambda>s.
               (let fname = ''live_'' @ str_nat (clock w (trace s)) @ ''.mp3'';
                    out_path = path_join (tempdir w) fname
                in bnd (if startswith tts_engine_choice ''gTTS''
                        then tts_gtts_and_save w translated target_lang out_path
                        else pyttsx3_then_mp3 g w translated out_path)
                     (\<lambda>tts_file.
                        bnd (case tts_file of
                               None \<Rightarrow> ret ()
                             | Some f \<Rightarrow> if f \<noteq> [] then emit (PlayThread f) else ret ())
                          (\<lambda>_. emit (Sleep pause_sec)))) s))))))))"

text \<open>One pass of the \<open>while\<close> body: the cycle inside its \<open>try\<close> (lines 372-420).\<close>

definition live_iteration ::
  "globals \<Rightarrow> world \<Rightarrow> string \<Rightarrow> nat \<Rightarrow> nat \<Rightarrow> string \<Rightarrow> unit prog" where
  "live_iteration g w target_lang chunk_sec pause_sec tts_engine_choice =
     try_except (live_cycle g w target_lang chunk_sec pause_sec tts_engine_choice)
       (\<lambda>e. bnd (emit (StWarning (''Live loop error: '' @ str_exn e))) (\<lambda>_. emit (Sleep 1)))"

text \<open>
  Reading the run flag at the top of a cycle (line 371). The flag is shared with the
  user-interface thread, which may have cleared it in the meantime.
\<close>

definition read_run_flag :: "world \<Rightarrow> bool prog" where
  "read_run_flag w s =
     (let s' = (if ui_stop w (trace s) then s\<lparr>live_flag := False\<rparr> else s)
      in (Inr (live_flag s'), s'))"

text \<open>
  The \<open>while _live_flag['run']\<close> loop. It runs for as long as the flag is set, so it is a
  partial function: \<open>None\<close> is the loop that never ends.
\<close>

partial_function (option) live_while ::
  "globals \<Rightarrow> world \<Rightarrow> string \<Rightarrow> nat \<Rightarrow> nat \<Rightarrow> string \<Rightarrow> pstate
     \<Rightarrow> ((exn + unit) \<times> pstate) option" where
  "live_while g w target_lang chunk_sec pause_sec tts_engine_choice s =
     (case read_run_flag w s of
        (Inl e, s1) \<Rightarrow> Some (Inl e, s1)
      | (Inr run, s1) \<Rightarrow>
          if run
          then (case live_iteration g w target_lang chunk_sec pause_sec tts_engine_choice s1 of
                  (Inl e, s2) \<Rightarrow> Some (Inl e, s2)
                | (Inr u, s2) \<Rightarrow>
                    live_while g w target_lang chunk_sec pause_sec tts_engine_choice s2)
          else Some (Inr (), s1))"

declare live_while.simps [code]

text \<open>Writing the run flag (lines 366, 427 and 432).\<close>

definition set_live_flag :: "bool \<Rightarrow> unit prog" where
  "set_live_flag b s = (Inr (), s\<lparr>live_flag := b\<rparr>)"

text \<open>
  \<open>live_loop\<close> (lines 359-420). Leaving the \<open>with mic as source\<close> block, normally or by an
  exception, closes the microphone.
\<close>

definition live_loop ::
  "globals \<Rightarrow> world \<Rightarrow> string \<Rightarrow> nat \<Rightarrow> nat \<Rightarrow> string \<Rightarrow> pstate
     \<Rightarrow> ((exn + unit) \<times> pstate) option" where
  "live_loop g w target_lang chunk_sec pause_sec tts_engine_choice s =
     (case extern MicrophoneNew (microphone w) s of
        (Inl e, s1) \<Rightarrow>
          Some (bnd (emit (StError (''Microphone not available: '' @ str_exn e)))
                  (\<lambda>_. set_live_flag False) s1)
      | (Inr mic, s1) \<Rightarrow>
          (case extern MicEnter (mic_enter w) s1 of
             (Inl e, s2) \<Rightarrow> Some (Inl e, s2)
           | (Inr source, s2) \<Rightarrow>
               (case extern AdjustForAmbientNoise (adjust_for_ambient_noise w) s2 of
                  (Inl e, s3) \<Rightarrow> Some (bnd (emit MicExit) (\<lambda>_. raise e) s3)
                | (Inr u, s3) \<Rightarrow>
                    (case live_while g w target_lang chunk_sec pause_sec tts_engine_choice s3 of
                       None \<Rightarrow> None
                     | Some (r, s4) \<Rightarrow>
                         Some (bnd (emit MicExit) (\<lambda>_ s'. (r, s')) s4)))))"

text \<open>
  The start and stop controls. A run of the script executes the module-level assignment
  \<open>_live_flag = {'run': False}\<close> (line 357) and then, when live mode is ticked, the two
  buttons (lines 423-433). The three booleans are the state of the checkbox and whether
  each button was pressed for this run. Starting the thread is recorded in the trace; the
  thread's own work is \<open>live_loop\<close>. (The dash of the first message is written in ASCII.)
\<close>

definition live_flag_init :: "unit prog" where
  "live_flag_init s = (Inr (), s\<lparr>live_flag := False\<rparr>)"

definition start_button :: "bool \<Rightarrow> string \<Rightarrow> nat \<Rightarrow> nat \<Rightarrow> string \<Rightarrow> unit prog" where
  "start_button start_pressed translate_target live_chunk_seconds live_pause_between tts_choice s =
     (if start_pressed \<and> \<not> live_flag s
      then bnd (set_live_flag True)
             (\<lambda>_. bnd (emit (LiveThread translate_target live_chunk_seconds
                              live_pause_between tts_choice))
               (\<lambda>_. emit (StSuccess
                  ''Live translation started - speak into your microphone.''))) s
      else ret () s)"

definition stop_button :: "bool \<Rightarrow> unit prog" where
  "stop_button stop_pressed s =
     (if stop_pressed \<and> live_flag s
      then bnd (set_live_flag False)
             (\<lambda>_. emit (StSuccess ''Stopping live translation - please wait a moment.'')) s
      else ret () s)"

definition live_buttons ::
  "bool \<Rightarrow> bool \<Rightarrow> bool \<Rightarrow> string \<Rightarrow> nat \<Rightarrow> nat \<Rightarrow> string \<Rightarrow> unit prog" where
  "live_buttons live_mode start_pressed stop_pressed
       translate_target live_chunk_seconds live_pause_between tts_choice =
     (if live_mode
      then bnd (start_button start_pressed translate_target live_chunk_seconds
                  live_pause_between tts_choice)
             (\<lambda>_. stop_button stop_pressed)
      else ret ())"

definition live_controls ::
  "bool \<Rightarrow> bool \<Rightarrow> bool \<Rightarrow> string \<Rightarrow> nat \<Rightarrow> nat \<Rightarrow> string \<Rightarrow> unit prog" where
  "live_controls live_mode start_pressed stop_pressed
       translate_target live_chunk_seconds live_pause_between tts_choice =
     bnd live_flag_init
       (\<lambda>_. live_buttons live_mode start_pressed stop_pressed
               translate_target live_chunk_seconds live_pause_between tts_choice)"

section \<open>Observations on traces and results\<close>

text \<open>The calls of the translation backend and of the two synthesis backends.\<close>

fun translation_or_synthesis :: "event \<Rightarrow> bool" where
  "translation_or_synthesis (GoogleTranslate t l) = True"
| "translation_or_synthesis (GttsSave t l p) = True"
| "translation_or_synthesis (Pyttsx3Save t p) = True"
| "translation_or_synthesis ev = False"

text \<open>The events that only a cycle of the live loop produces.\<close>

fun cycle_event :: "event \<Rightarrow> bool" where
  "cycle_event (MicRecord n) = True"
| "cycle_event (SaveChunk a) = True"
| "cycle_event ev = False"

text \<open>
  A field of the dictionary a call returned: \<open>None\<close> when the call raised or the
  dictionary has no such key.
\<close>

definition result_field ::
  "(exn + (string \<rightharpoonup> pyval)) \<times> pstate \<Rightarrow> string \<Rightarrow> pyval option" where
  "result_field r k = (case fst r of Inl e \<Rightarrow> None | Inr d \<Rightarrow> d k)"

section \<open>Concrete settings and worlds for the examples\<close>

text \<open>A world in which every library call succeeds and the speaker said "hello".\<close>

definition studio :: world where
  "studio =
     \<lparr>audio_file_record = (\<lambda>h p. Inr ''pcm''),
      recognize_google = (\<lambda>h a. Inr ''hello''),
      whisper_load_model = (\<lambda>h m. Inr ()),
      whisper_transcribe = (\<lambda>h p. Inr [''text'' \<mapsto> ''hello'']),
      google_translate = (\<lambda>h t l. Inr ''hola''),
      detect = (\<lambda>h t. Inr ''en''),
      gtts_save = (\<lambda>h t l p. Inr ()),
      pyttsx3_save = (\<lambda>h t p. Inr ()),
      segment_export = (\<lambda>h a b. Inr ()),
      clock = (\<lambda>h. 1705),
      tempdir = ''/tmp'',
      microphone = (\<lambda>h. Inr ()),
      mic_enter = (\<lambda>h. Inr ()),
      adjust_for_ambient_noise = (\<lambda>h. Inr ()),
      mic_record = (\<lambda>h n. Inr ''pcm''),
      save_chunk = (\<lambda>h a. Inr ''/tmp/chunk.wav''),
      ui_stop = (\<lambda>h. False)\<rparr>"

text \<open>The default sidebar: Google speech recognition, language detection on.\<close>

definition online :: globals where
  "online = \<lparr>has_pyttsx3 = True, has_whisper = False,
             stt_backend = ''Google Web Speech (online)'', use_lang_detect = True\<rparr>"

definition idle :: pstate where
  "idle = \<lparr>trace = [], live_flag = False\<rparr>"

text \<open>Silence: the recogniser understands nothing.\<close>

definition silence :: world where
  "silence = studio\<lparr>recognize_google := (\<lambda>h a. Inl UnknownValueError)\<rparr>"

text \<open>Language detection fails (\<open>langdetect\<close> raises on text without letters).\<close>

definition undetectable :: world where
  "undetectable = studio\<lparr>detect := (\<lambda>h t. Inl (Exception ''No features in text.''))\<rparr>"

text \<open>The translation service cannot be reached.\<close>

definition no_network :: world where
  "no_network = studio\<lparr>google_translate := (\<lambda>h t l. Inl (Exception ''timeout''))\<rparr>"

text \<open>
  Uploaded mp3 files: the uploader accepts them (lines 200 and 219), and \<open>sr.AudioFile\<close>
  reads WAV, AIFF and FLAC only.
\<close>

definition mp3_upload :: world where
  "mp3_upload =
     studio\<lparr>audio_file_record :=
       (\<lambda>h p. if p = ''b.mp3''
              then Inl (Exception ''Audio file could not be read as PCM WAV, AIFF/AIFF-C, or Native FLAC'')
              else Inr ''pcm'')\<rparr>"

text \<open>No microphone; a microphone that another program holds.\<close>

definition no_microphone :: world where
  "no_microphone = studio\<lparr>microphone := (\<lambda>h. Inl (Exception ''No Default Input Device Available''))\<rparr>"

definition busy_microphone :: world where
  "busy_microphone = studio\<lparr>mic_enter := (\<lambda>h. Inl (Exception ''Device unavailable''))\<rparr>"

text \<open>A microphone that opens and then fails during the noise calibration.\<close>

definition uncalibrated :: world where
  "uncalibrated =
     studio\<lparr>adjust_for_ambient_noise := (\<lambda>h. Inl (Exception ''Input overflowed''))\<rparr>"

text \<open>
  Recording the first chunk fails, and the user presses stop during the pause that
  follows.
\<close>

definition glitch :: world where
  "glitch =
     studio\<lparr>mic_record := (\<lambda>h n. Inl (Exception ''Stream closed'')),
            ui_stop := (\<lambda>h. h \<noteq> [])\<rparr>"

section \<open>Properties\<close>

subsection \<open>Steps that never raise\<close>

lemmas prog_defs = ret_def raise_def bnd_def try_except_def emit_def extern_def

lemma recognize_with_whisper_returns:
  "\<exists>t s'. recognize_with_whisper g w p m s = (Inr t, s')"
  by (auto simp: recognize_with_whisper_def prog_defs split: sum.splits prod.splits)

lemma detect_language_returns:
  "\<exists>d s'. detect_language w t s = (Inr d, s')"
  by (auto simp: detect_language_def prog_defs split: sum.splits prod.splits)

lemma translate_text_returns:
  "\<exists>d s'. translate_text w t tgt s = (Inr d, s')"
  by (auto simp: translate_text_def prog_defs split: sum.splits prod.splits)

lemma tts_gtts_and_save_returns:
  "\<exists>d s'. tts_gtts_and_save w t tgt out s = (Inr d, s')"
  by (auto simp: tts_gtts_and_save_def prog_defs split: sum.splits prod.splits)

lemma tts_pyttsx3_and_save_returns:
  "\<exists>d s'. tts_pyttsx3_and_save g w t out s = (Inr d, s')"
  by (auto simp: tts_pyttsx3_and_save_def prog_defs split: sum.splits prod.splits)

lemma pyttsx3_then_mp3_returns:
  "\<exists>d s'. pyttsx3_then_mp3 g w t out s = (Inr d, s')"
  using tts_pyttsx3_and_save_returns [of g w t "replace out ''.mp3'' ''.wav''" s]
  by (auto simp: pyttsx3_then_mp3_def Let_def prog_defs split: sum.splits prod.splits)

subsection \<open>The batch pipeline after transcription\<close>

text \<open>The transcription step adds no call of translation or synthesis to the trace.\<close>

lemma stt_dispatch_trace:
  "stt_dispatch g w p s = (r, s1) \<Longrightarrow>
     filter translation_or_synthesis (trace s1) = filter translation_or_synthesis (trace s)"
  by (auto simp: stt_dispatch_def recognize_with_google_def recognize_with_whisper_def prog_defs
      split: sum.splits prod.splits if_splits)

text \<open>What process_single_file returns after a non-empty transcription.\<close>

lemma process_single_file_nonempty:
  assumes "stt_dispatch g w p s = (Inr t, s1)" and "t \<noteq> []"
    and "process_single_file g w p tgt tts s = (Inr r, s')"
  shows "r ''error'' = Some PyNone \<and> r ''source_text'' = Some (PyStr t)"
  using assms
  by (auto simp: process_single_file_def Let_def bnd_def ret_def split: sum.splits prod.splits if_splits)

lemma process_single_file_stt_raises:
  assumes "stt_dispatch g w p s = (Inl e, s1)"
  shows "process_single_file g w p tgt tts s = (Inl e, s1)"
  using assms by (simp add: process_single_file_def bnd_def)

lemma process_single_file_empty:
  assumes "stt_dispatch g w p s = (Inr [], s1)"
  shows "process_single_file g w p tgt tts s =
      (Inr [''error'' \<mapsto> PyStr ''STT failed or empty'',
            ''source_text'' \<mapsto> PyStr [],
            ''translated'' \<mapsto> PyStr []], s1)"
  using assms by (simp add: process_single_file_def bnd_def ret_def)

subsection \<open>Evaluation on the concrete worlds\<close>

lemmas step_defs = stt_dispatch_def recognize_with_google_def recognize_with_whisper_def
  translate_text_def detect_language_def tts_gtts_and_save_def tts_pyttsx3_and_save_def
  pyttsx3_then_mp3_def startswith_def path_join_def str_nat.simps

lemmas world_defs = studio_def online_def idle_def silence_def undetectable_def no_network_def
  mp3_upload_def no_microphone_def busy_microphone_def uncalibrated_def glitch_def

lemma silence_transcript:
  "stt_dispatch online silence ''a.wav'' idle =
     (Inr [], idle\<lparr>trace := [AudioFileRecord ''a.wav'', RecognizeGoogle ''pcm'']\<rparr>)"
  by (simp add: step_defs prog_defs world_defs)

lemma studio_transcript:
  "stt_dispatch online studio ''a.wav'' idle =
     (Inr ''hello'', idle\<lparr>trace := [AudioFileRecord ''a.wav'', RecognizeGoogle ''pcm'']\<rparr>)"
  by (simp add: step_defs prog_defs world_defs)

lemma studio_result:
  "process_single_file online studio ''a.wav'' ''es'' ''gTTS (online)'' idle =
     (Inr [''error'' \<mapsto> PyNone,
           ''source_text'' \<mapsto> PyStr ''hello'',
           ''detected_lang'' \<mapsto> PyStr ''en'',
           ''translated'' \<mapsto> PyStr ''hola'',
           ''tts_file'' \<mapsto> PyStr ''/tmp/translated_1705.mp3''],
      idle\<lparr>trace := [AudioFileRecord ''a.wav'', RecognizeGoogle ''pcm'', LangDetect ''hello'',
         GoogleTranslate ''hello'' ''es'', GttsSave ''hola'' ''es'' ''/tmp/translated_1705.mp3'']\<rparr>)"
  by (simp add: process_single_file_def step_defs prog_defs world_defs Let_def)


subsection \<open>Translation of the empty text\<close>

text \<open>
  C3. Translating the empty text returns the empty string and leaves the state, and with it
  the trace of library calls, as it was: the translation backend is not called.
\<close>

theorem translate_text_empty:
  "translate_text w [] target_lang s = (Inr [], s)"
  by (simp add: translate_text_def ret_def)

subsection \<open>Silence in the batch pipeline\<close>

text \<open>
  On silence the record that \<open>process_single_file\<close> returns carries the error text
  \<open>STT failed or empty\<close>, not \<open>None\<close>.
\<close>

theorem process_single_file_silence_counterexample:
  "fst (stt_dispatch online silence ''a.wav'' idle) = Inr [] \<and>
   result_field (process_single_file online silence ''a.wav'' ''es'' ''gTTS (online)'' idle) ''error''
     = Some (PyStr ''STT failed or empty'') \<and>
   result_field (process_single_file online silence ''a.wav'' ''es'' ''gTTS (online)'' idle) ''error''
     \<noteq> Some PyNone"
  by (simp add: silence_transcript process_single_file_empty [OF silence_transcript] result_field_def)

text \<open>
  C1 (amended). For every audio input whose transcription yields the empty text,
  \<open>process_single_file\<close> returns the record with \<open>error\<close> equal to
  \<open>STT failed or empty\<close> and with \<open>source_text\<close> and \<open>translated\<close> both empty; the state is
  the one the transcription left, and the trace holds no call of the translation backend or
  of a synthesis backend that was not there before.
\<close>

theorem process_single_file_empty_transcript:
  assumes "stt_dispatch g w audio_file s = (Inr [], s1)"
  shows "process_single_file g w audio_file target_lang tts_engine_choice s =
           (Inr [''error'' \<mapsto> PyStr ''STT failed or empty'',
                 ''source_text'' \<mapsto> PyStr [],
                 ''translated'' \<mapsto> PyStr []], s1) \<and>
         filter translation_or_synthesis (trace s1) = filter translation_or_synthesis (trace s)"
  using process_single_file_empty [OF assms] stt_dispatch_trace [OF assms] by simp

theorem process_single_file_empty_transcript_witness:
  "stt_dispatch online silence ''a.wav'' idle =
     (Inr [], idle\<lparr>trace := [AudioFileRecord ''a.wav'', RecognizeGoogle ''pcm'']\<rparr>) \<and>
   process_single_file online silence ''a.wav'' ''es'' ''gTTS (online)'' idle =
     (Inr [''error'' \<mapsto> PyStr ''STT failed or empty'',
           ''source_text'' \<mapsto> PyStr [],
           ''translated'' \<mapsto> PyStr []],
      idle\<lparr>trace := [AudioFileRecord ''a.wav'', RecognizeGoogle ''pcm'']\<rparr>) \<and>
   filter translation_or_synthesis [AudioFileRecord ''a.wav'', RecognizeGoogle ''pcm''] = []"
  using process_single_file_empty_transcript [OF silence_transcript, of "''es''" "''gTTS (online)''"]
    silence_transcript
  by (simp add: idle_def)

text \<open>
  C10. A record returned by \<open>process_single_file\<close> always has the key \<open>error\<close>; its value
  differs from \<open>None\<close> exactly when the transcription result is the empty string, and in
  that case the record is the three-key record above, without the keys \<open>tts_file\<close> and
  \<open>detected_lang\<close>.
\<close>

theorem process_single_file_error_iff_empty:
  assumes "process_single_file g w audio_file target_lang tts_engine_choice s = (Inr r, s')"
  shows "r ''error'' \<noteq> None \<and>
         ((r ''error'' \<noteq> Some PyNone) = (fst (stt_dispatch g w audio_file s) = Inr [])) \<and>
         (fst (stt_dispatch g w audio_file s) = Inr [] \<longrightarrow>
            r = [''error'' \<mapsto> PyStr ''STT failed or empty'',
                 ''source_text'' \<mapsto> PyStr [],
                 ''translated'' \<mapsto> PyStr []] \<and>
            ''tts_file'' \<notin> dom r \<and> ''detected_lang'' \<notin> dom r)"
proof -
  obtain o1 s1 where st: "stt_dispatch g w audio_file s = (o1, s1)"
    by (cases "stt_dispatch g w audio_file s")
  show ?thesis
  proof (cases o1)
    case (Inl e)
    with st assms process_single_file_stt_raises [of g w audio_file s e s1] show ?thesis by simp
  next
    case (Inr t)
    show ?thesis
    proof (cases "t = []")
      case True
      with st Inr have "stt_dispatch g w audio_file s = (Inr [], s1)" by simp
      from process_single_file_empty [OF this, of target_lang tts_engine_choice] assms
      have "r = [''error'' \<mapsto> PyStr ''STT failed or empty'',
                 ''source_text'' \<mapsto> PyStr [],
                 ''translated'' \<mapsto> PyStr []]" by simp
      with st Inr True show ?thesis by simp
    next
      case False
      from st Inr have "stt_dispatch g w audio_file s = (Inr t, s1)" by simp
      from process_single_file_nonempty [OF this False assms] st Inr False
      show ?thesis by simp
    qed
  qed
qed

theorem process_single_file_error_iff_empty_witness:
  "process_single_file online silence ''a.wav'' ''es'' ''gTTS (online)'' idle =
     (Inr [''error'' \<mapsto> PyStr ''STT failed or empty'',
           ''source_text'' \<mapsto> PyStr [],
           ''translated'' \<mapsto> PyStr []],
      idle\<lparr>trace := [AudioFileRecord ''a.wav'', RecognizeGoogle ''pcm'']\<rparr>) \<and>
   fst (stt_dispatch online silence ''a.wav'' idle) = Inr [] \<and>
   ''tts_file'' \<notin> dom [''error'' \<mapsto> PyStr ''STT failed or empty'',
                          ''source_text'' \<mapsto> PyStr [], ''translated'' \<mapsto> PyStr []] \<and>
   ''detected_lang'' \<notin> dom [''error'' \<mapsto> PyStr ''STT failed or empty'',
                          ''source_text'' \<mapsto> PyStr [], ''translated'' \<mapsto> PyStr []] \<and>
   fst (stt_dispatch online studio ''a.wav'' idle) \<noteq> Inr [] \<and>
   result_field (process_single_file online studio ''a.wav'' ''es'' ''gTTS (online)'' idle) ''error''
     = Some PyNone"
proof -
  have a: "process_single_file online silence ''a.wav'' ''es'' ''gTTS (online)'' idle =
     (Inr [''error'' \<mapsto> PyStr ''STT failed or empty'',
           ''source_text'' \<mapsto> PyStr [],
           ''translated'' \<mapsto> PyStr []],
      idle\<lparr>trace := [AudioFileRecord ''a.wav'', RecognizeGoogle ''pcm'']\<rparr>)"
    by (rule process_single_file_empty [OF silence_transcript])
  note b = studio_result
  from process_single_file_error_iff_empty [OF a] process_single_file_error_iff_empty [OF b]
  show ?thesis
    by (simp add: a b silence_transcript studio_transcript result_field_def)
qed

subsection \<open>Language detection\<close>

text \<open>
  When the detector raises, \<open>detect_language\<close> returns \<open>None\<close> (line 146); the string
  \<open>unknown\<close> is not what it returns.
\<close>

theorem detect_language_unknown_counterexample:
  "detect undetectable (trace idle) ''12345'' = Inl (Exception ''No features in text.'') \<and>
   fst (detect_language undetectable ''12345'' idle) = Inr None \<and>
   fst (detect_language undetectable ''12345'' idle) \<noteq> Inr (Some ''unknown'')"
  by (simp add: detect_language_def prog_defs world_defs)

text \<open>
  C4 (amended). For every text, if the language-detection backend raises, then
  \<open>detect_language\<close> returns \<open>None\<close> and does not pass the exception on to its caller.
\<close>

theorem detect_language_failure_returns_none:
  assumes "detect w (trace s) text = Inl e"
  shows "detect_language w text s = (Inr None, s\<lparr>trace := trace s @ [LangDetect text]\<rparr>)"
  using assms by (simp add: detect_language_def prog_defs)

theorem detect_language_failure_returns_none_witness:
  "detect undetectable (trace idle) ''12345'' = Inl (Exception ''No features in text.'') \<and>
   detect_language undetectable ''12345'' idle = (Inr None, idle\<lparr>trace := [LangDetect ''12345'']\<rparr>)"
proof -
  have h: "detect undetectable (trace idle) ''12345'' = Inl (Exception ''No features in text.'')"
    by (simp add: world_defs)
  from detect_language_failure_returns_none [OF h] h show ?thesis
    by (simp add: idle_def)
qed

subsection \<open>Synthesis of the empty text\<close>

text \<open>The online synthesiser returns \<open>None\<close> on the empty text without calling gTTS.\<close>

lemma tts_gtts_and_save_empty:
  "tts_gtts_and_save w [] lang out_path s = (Inr None, s)"
  by (simp add: tts_gtts_and_save_def ret_def)

text \<open>
  C2. The claim is that for both synthesis backends the empty text returns \<open>None\<close> at once
  and never reaches the backend. \<open>tts_pyttsx3_and_save\<close> has no test of the text: with
  pyttsx3 installed the empty text is handed to the engine and the path of the file is
  returned. The batch pipeline gets there when translation has failed, so that
  \<open>translated\<close> is empty.
\<close>

theorem tts_pyttsx3_and_save_empty_text_reaches_engine:
  "tts_pyttsx3_and_save online studio [] ''/tmp/translated_1705.wav'' idle =
     (Inr (Some ''/tmp/translated_1705.wav''),
      idle\<lparr>trace := [Pyttsx3Save [] ''/tmp/translated_1705.wav'']\<rparr>) \<and>
   process_single_file online no_network ''a.wav'' ''es'' ''pyttsx3 (offline)'' idle =
     (Inr [''error'' \<mapsto> PyNone,
           ''source_text'' \<mapsto> PyStr ''hello'',
           ''detected_lang'' \<mapsto> PyStr ''en'',
           ''translated'' \<mapsto> PyStr [],
           ''tts_file'' \<mapsto> PyStr ''/tmp/translated_1705.mp3''],
      idle\<lparr>trace := [AudioFileRecord ''a.wav'', RecognizeGoogle ''pcm'', LangDetect ''hello'',
         GoogleTranslate ''hello'' ''es'', StWarning ''Translation error: timeout'',
         Pyttsx3Save [] ''/tmp/translated_1705.wav'',
         SegmentExport ''/tmp/translated_1705.wav'' ''/tmp/translated_1705.mp3'']\<rparr>)"
  by (simp add: process_single_file_def step_defs prog_defs world_defs Let_def)

subsection \<open>Transcription\<close>

text \<open>
  What holds of the two recognisers: unrecognised speech gives the empty text, a failure
  of the recognition call gives the empty text and a warning, and the Whisper path never
  raises.
\<close>

lemma recognize_with_google_unknown_value:
  assumes "audio_file_record w (trace s) p = Inr a"
    and "recognize_google w (trace s @ [AudioFileRecord p]) a = Inl UnknownValueError"
  shows "recognize_with_google w p s =
           (Inr [], s\<lparr>trace := trace s @ [AudioFileRecord p, RecognizeGoogle a]\<rparr>)"
  using assms by (simp add: recognize_with_google_def prog_defs)

lemma recognize_with_google_backend_failure:
  assumes "audio_file_record w (trace s) p = Inr a"
    and "recognize_google w (trace s @ [AudioFileRecord p]) a = Inl (Exception m)"
  shows "recognize_with_google w p s =
           (Inr [], s\<lparr>trace := trace s @ [AudioFileRecord p, RecognizeGoogle a,
                                          StWarning (''Google STT error: '' @ m)]\<rparr>)"
  using assms by (simp add: recognize_with_google_def prog_defs)

lemma recognize_with_google_unreadable:
  assumes "audio_file_record w (trace s) p = Inl e"
  shows "recognize_with_google w p s = (Inl e, s\<lparr>trace := trace s @ [AudioFileRecord p]\<rparr>)"
  using assms by (simp add: recognize_with_google_def prog_defs)

lemma recognize_with_whisper_not_installed:
  assumes "\<not> has_whisper g"
  shows "recognize_with_whisper g w p m s =
     (Inr [], s\<lparr>trace := trace s @ [StWarning
        ''Whisper not installed. Install 'whisper' package to use local Whisper.'']\<rparr>)"
  using assms by (simp add: recognize_with_whisper_def prog_defs)

lemma recognize_with_whisper_failure:
  assumes "has_whisper g"
    and "whisper_load_model w (trace s) m = Inl e \<or>
         (whisper_load_model w (trace s) m = Inr () \<and>
          whisper_transcribe w (trace s @ [WhisperLoadModel m]) p = Inl e)"
  shows "fst (recognize_with_whisper g w p m s) = Inr [] \<and>
         last (trace (snd (recognize_with_whisper g w p m s))) =
           StWarning (''Whisper error: '' @ str_exn e)"
  using assms by (auto simp: recognize_with_whisper_def prog_defs)

text \<open>
  C5. The claim is that for every audio input transcription gives a text, empty on
  failure, and never raises. In \<open>recognize_with_google\<close> the audio file is read before the
  \<open>try\<close> (lines 106-107), so a file that cannot be read raises out of the function and
  out of the transcription step; the Whisper path reads the file inside its \<open>try\<close>.
\<close>

theorem recognize_with_google_unreadable_file_raises:
  "recognize_with_google mp3_upload ''b.mp3'' idle =
     (Inl (Exception ''Audio file could not be read as PCM WAV, AIFF/AIFF-C, or Native FLAC''),
      idle\<lparr>trace := [AudioFileRecord ''b.mp3'']\<rparr>) \<and>
   stt_dispatch online mp3_upload ''b.mp3'' idle =
     (Inl (Exception ''Audio file could not be read as PCM WAV, AIFF/AIFF-C, or Native FLAC''),
      idle\<lparr>trace := [AudioFileRecord ''b.mp3'']\<rparr>)"
  by (simp add: step_defs prog_defs world_defs)

subsection \<open>The batch runner\<close>

text \<open>
  C6. The claim is that the batch runner returns one result per input, in order, and that
  an error at item k does not keep the later items from being processed. With three
  inputs of which the second cannot be read, the loop ends with the exception: there is no
  result list and the third input is never touched.
\<close>

theorem batch_loop_aborts_on_unreadable_file:
  "batch_loop online mp3_upload ''es'' ''gTTS (online)'' [''a.wav'', ''b.mp3'', ''c.wav''] [] idle =
     (Inl (Exception ''Audio file could not be read as PCM WAV, AIFF/AIFF-C, or Native FLAC''),
      idle\<lparr>trace := [AudioFileRecord ''a.wav'', RecognizeGoogle ''pcm'', LangDetect ''hello'',
         GoogleTranslate ''hello'' ''es'', GttsSave ''hola'' ''es'' ''/tmp/translated_1705.mp3'',
         AudioFileRecord ''b.mp3'']\<rparr>)"
  by (simp add: process_single_file_def step_defs prog_defs world_defs Let_def)

text \<open>When no call of process_single_file raises, the batch is complete and in order.\<close>

lemma batch_loop_results:
  "batch_loop g w tgt tts inputs results s = (Inr rs, s') \<Longrightarrow>
     map fst rs = map fst results @ inputs"
proof (induction inputs arbitrary: results s)
  case Nil
  then show ?case by (simp add: ret_def)
next
  case (Cons p inputs)
  then show ?case
    by (auto simp: bnd_def split: prod.splits sum.splits)
qed

lemma process_single_file_whisper_returns:
  assumes "\<not> startswith (stt_backend g) ''Google''"
  shows "\<exists>r s'. process_single_file g w p tgt tts s = (Inr r, s')"
proof -
  obtain t s1 where a: "stt_dispatch g w p s = (Inr t, s1)"
    using assms recognize_with_whisper_returns [of g w p "''small''" s]
    by (auto simp: stt_dispatch_def)
  obtain d s2 where b: "(if use_lang_detect g then detect_language w t else ret None) s1 = (Inr d, s2)"
    using detect_language_returns [of w t s1]
    by (cases "use_lang_detect g") (auto simp: ret_def)
  obtain tr s3 where c: "translate_text w t tgt s2 = (Inr tr, s3)"
    using translate_text_returns by blast
  define out where "out = path_join (tempdir w) (''translated_'' @ str_nat (clock w (trace s3)) @ ''.mp3'')"
  obtain f s4 where d: "(if tts = ''gTTS (online)'' then tts_gtts_and_save w tr tgt out
        else pyttsx3_then_mp3 g w tr out) s3 = (Inr f, s4)"
    using tts_gtts_and_save_returns [of w tr tgt out s3] pyttsx3_then_mp3_returns [of g w tr out s3]
    by (cases "tts = ''gTTS (online)''") auto
  show ?thesis
    using a b c d
    by (cases "t = []") (auto simp: process_single_file_def bnd_def ret_def Let_def out_def)
qed

lemma batch_loop_whisper_complete:
  assumes "\<not> startswith (stt_backend g) ''Google''"
  shows "\<exists>rs s'. batch_loop g w tgt tts inputs results s = (Inr rs, s') \<and>
           length rs = length results + length inputs \<and> map fst rs = map fst results @ inputs"
proof (induction inputs arbitrary: results s)
  case Nil
  then show ?case by (simp add: ret_def)
next
  case (Cons p inputs)
  obtain r s1 where a: "process_single_file g w p tgt tts s = (Inr r, s1)"
    using process_single_file_whisper_returns [OF assms] by blast
  from Cons [of "results @ [(p, r)]" s1] a show ?case
    by (auto simp: bnd_def)
qed

subsection \<open>Start and stop\<close>

lemmas control_defs = live_controls_def live_buttons_def start_button_def stop_button_def
  live_flag_init_def set_live_flag_def

text \<open>The guard of the start button alone: with the flag set, nothing is started.\<close>

lemma start_button_guard:
  "live_flag s \<Longrightarrow> start_button pressed tgt cs ps tts s = (Inr (), s)"
  by (simp add: start_button_def ret_def)

text \<open>A run of the script clears the flag before the guard reads it.\<close>

lemma live_controls_start_always_spawns:
  "live_controls True True False tgt cs ps tts s =
     (Inr (), s\<lparr>trace := trace s @ [LiveThread tgt cs ps tts,
                    StSuccess ''Live translation started - speak into your microphone.''],
                live_flag := True\<rparr>)"
  by (simp add: control_defs prog_defs)

text \<open>
  C8. The claim is that a second start, without a stop in between, starts no second loop
  thread. Two runs of the script with the start button pressed start two threads.
\<close>

theorem live_controls_start_twice_two_threads:
  "live_controls True True False ''es'' 4 0 ''gTTS (online)''
     (snd (live_controls True True False ''es'' 4 0 ''gTTS (online)'' idle)) =
     (Inr (),
      \<lparr>trace = [LiveThread ''es'' 4 0 ''gTTS (online)'',
                StSuccess ''Live translation started - speak into your microphone.'',
                LiveThread ''es'' 4 0 ''gTTS (online)'',
                StSuccess ''Live translation started - speak into your microphone.''],
       live_flag = True\<rparr>)"
  by (simp add: control_defs prog_defs world_defs)

text \<open>Stop in a later run of the script finds the flag cleared and does nothing.\<close>

lemma live_controls_stop_no_effect:
  "live_controls True False True tgt cs ps tts s = (Inr (), s\<lparr>live_flag := False\<rparr>)"
  by (simp add: control_defs prog_defs)

subsection \<open>The live loop\<close>

lemma live_iteration_returns:
  "\<exists>s'. live_iteration g w tgt cs ps tts s = (Inr (), s')"
  by (auto simp: live_iteration_def prog_defs split: sum.splits prod.splits)


lemma live_while_returns:
  assumes "live_while g w tgt cs ps tts s = Some y"
  shows "fst y = Inr () \<and> \<not> live_flag (snd y)"
proof (rule live_while.raw_induct
    [where P = "\<lambda>g w tgt cs ps tts s y. fst y = Inr () \<and> \<not> live_flag (snd y)", OF _ assms])
  fix lw g w tgt cs ps tts s y
  assume IH: "\<And>g w tgt cs ps tts s y.
      lw g w tgt cs ps tts s = Some y \<Longrightarrow> fst y = Inr () \<and> \<not> live_flag (snd y)"
    and step: "(case read_run_flag w s of
        (Inl e, s1) \<Rightarrow> Some (Inl e, s1)
      | (Inr run, s1) \<Rightarrow>
          if run
          then (case live_iteration g w tgt cs ps tts s1 of
                  (Inl e, s2) \<Rightarrow> Some (Inl e, s2)
                | (Inr u, s2) \<Rightarrow> lw g w tgt cs ps tts s2)
          else Some (Inr (), s1)) = Some y"
  obtain s1 where s1: "read_run_flag w s = (Inr (live_flag s1), s1)"
    by (simp add: read_run_flag_def Let_def)
  show "fst y = Inr () \<and> \<not> live_flag (snd y)"
  proof (cases "live_flag s1")
    case True
    obtain s2 where s2: "live_iteration g w tgt cs ps tts s1 = (Inr (), s2)"
      using live_iteration_returns by blast
    from step s1 True s2 have "lw g w tgt cs ps tts s2 = Some y" by simp
    then show ?thesis by (rule IH)
  next
    case False
    with step s1 show ?thesis by auto
  qed
qed





text \<open>
  The start of \<open>live_loop\<close>, for every world. If the constructor \<open>sr.Microphone()\<close> raises,
  the error is reported, the run flag is cleared and the function returns (lines 362-367).
  If \<open>live_loop\<close> ends with an exception, no cycle has run and the exception is that of
  opening the microphone (line 369) or of the noise calibration (line 370).
\<close>

lemma live_loop_startup:
  "(microphone w (trace s) = Inl e \<longrightarrow>
      live_loop g w target_lang chunk_sec pause_sec tts_engine_choice s =
        Some (Inr (), s\<lparr>trace := trace s @ [MicrophoneNew,
                           StError (''Microphone not available: '' @ str_exn e)],
                        live_flag := False\<rparr>)) \<and>
   (live_loop g w target_lang chunk_sec pause_sec tts_engine_choice s = Some (Inl e', s') \<longrightarrow>
      filter cycle_event (trace s') = filter cycle_event (trace s) \<and>
      (mic_enter w (trace s @ [MicrophoneNew]) = Inl e' \<or>
       adjust_for_ambient_noise w (trace s @ [MicrophoneNew, MicEnter]) = Inl e'))"
proof (rule conjI; rule impI)
  assume "microphone w (trace s) = Inl e"
  then show "live_loop g w target_lang chunk_sec pause_sec tts_engine_choice s =
        Some (Inr (), s\<lparr>trace := trace s @ [MicrophoneNew,
                           StError (''Microphone not available: '' @ str_exn e)],
                        live_flag := False\<rparr>)"
    by (simp add: live_loop_def set_live_flag_def prog_defs)
next
  assume a: "live_loop g w target_lang chunk_sec pause_sec tts_engine_choice s = Some (Inl e', s')"
  have nr: "\<And>s3 s4. live_while g w target_lang chunk_sec pause_sec tts_engine_choice s3
      \<noteq> Some (Inl e', s4)"
    using live_while_returns by fastforce
  from a nr show "filter cycle_event (trace s') = filter cycle_event (trace s) \<and>
      (mic_enter w (trace s @ [MicrophoneNew]) = Inl e' \<or>
       adjust_for_ambient_noise w (trace s @ [MicrophoneNew, MicEnter]) = Inl e')"
    by (auto simp: live_loop_def set_live_flag_def prog_defs split: sum.splits option.splits prod.splits)
qed

text \<open>The constructor fails: error reported, flag cleared, normal return, no cycle.\<close>

lemma live_loop_no_microphone:
  "live_loop online no_microphone ''es'' 4 0 ''gTTS (online)'' (idle\<lparr>live_flag := True\<rparr>) =
     Some (Inr (), \<lparr>trace = [MicrophoneNew,
        StError ''Microphone not available: No Default Input Device Available''],
        live_flag = False\<rparr>)"
  by (simp add: live_loop_def set_live_flag_def prog_defs world_defs)

text \<open>
  C9. The claim is that when microphone acquisition fails at the start of the live loop,
  the session reports an error, clears the run flag and returns. The \<open>try\<close> of lines
  362-367 covers the constructor only. The device is opened by \<open>with mic as source\<close>
  (line 369) and first used by the noise calibration (line 370), both outside any \<open>try\<close>:
  when either fails, \<open>live_loop\<close> ends with the exception, nothing is reported and the run
  flag stays set.
\<close>

theorem live_loop_device_failure_unreported:
  "microphone busy_microphone [] = Inr () \<and>
   live_loop online busy_microphone ''es'' 4 0 ''gTTS (online)'' (idle\<lparr>live_flag := True\<rparr>) =
     Some (Inl (Exception ''Device unavailable''),
           \<lparr>trace = [MicrophoneNew, MicEnter], live_flag = True\<rparr>) \<and>
   live_loop online uncalibrated ''es'' 4 0 ''gTTS (online)'' (idle\<lparr>live_flag := True\<rparr>) =
     Some (Inl (Exception ''Input overflowed''),
           \<lparr>trace = [MicrophoneNew, MicEnter, AdjustForAmbientNoise, MicExit],
            live_flag = True\<rparr>)"
  by (simp add: live_loop_def set_live_flag_def prog_defs world_defs)

end
